theory Spec2Isabelle
  imports Main "HOL-Library.Word"
begin

unbundle bit_operations_syntax

section \<open>The IR model the passes work on\<close>

text \<open>
  The passes of the repository mutate LLVM functions through the IR library's
  primitives.  The library itself is not part of the repository; the model below
  keeps the part of its surface the passes use: a function is an ordered list of basic
  blocks, a basic block an ordered list of instructions, and every instruction is a
  value of its own identity.

  Identities.  An instruction pointer is modelled by a number \<open>valueid\<close> that is never
  reused (\<open>next_id\<close> is the supply of fresh ones).  A basic-block pointer is modelled
  by the block's position in the function's block list: the passes only ever append
  blocks, so a position names the same block for the whole run, and position 0 is the
  entry block.

  Builder calls.  The passes build instructions with \<open>IRBuilder<>\<close>, whose default
  folder folds constants: a \<open>Create...\<close> call for an arithmetic operation or a
  comparison whose operands are all constants inserts nothing and returns the folded
  constant; every other call inserts one instruction at the builder's insertion point
  and returns it.  Allocas, loads, stores and terminators are always inserted.
\<close>

type_synonym i32 = "32 word"
type_synonym valueid = nat
type_synonym blockref = nat

datatype val =
    ConstInt i32
  | ConstBool bool
  | Reg valueid
  | GlobalVariable string

datatype opcode =
    Alloca
  | Store val val
  | Load val
  | Add val val
  | Sub val val
  | Mul val val
  | Div val val
  | Shl val val
  | ICmpEQ val val
  | GetElementPtr val "val list"
  | Call "string option" "val list"
  | PHI "(val \<times> blockref) list"
  | LandingPad
  | Br blockref
  | CondBr val blockref blockref
  | Switch val "blockref option" "(i32 \<times> blockref) list"
  | Ret "val option"

type_synonym inst = "valueid \<times> opcode"

record block =
  bname :: string
  insts :: "inst list"

datatype attribute = NoInline | AlwaysInline | OtherAttribute string

record func =
  fname :: string
  attrs :: "attribute list"
  blocks :: "block list"
  next_id :: nat

text \<open>\<open>Instruction::isTerminator\<close>.\<close>

fun isTerminator :: "opcode \<Rightarrow> bool" where
  "isTerminator (Br _) = True"
| "isTerminator (CondBr _ _ _) = True"
| "isTerminator (Switch _ _ _) = True"
| "isTerminator (Ret _) = True"
| "isTerminator _ = False"

text \<open>
  \<open>BasicBlock::getTerminator\<close>: the last instruction of the block when that is a
  terminator, the null pointer (\<open>None\<close>) otherwise.
\<close>

definition getTerminator :: "block \<Rightarrow> inst option" where
  "getTerminator b =
     (if insts b = [] then None
      else if isTerminator (snd (last (insts b))) then Some (last (insts b))
      else None)"

text \<open>The number of terminator instructions a block holds, wherever they stand.\<close>

definition terminator_count :: "block \<Rightarrow> nat" where
  "terminator_count b = length (filter (\<lambda>i. isTerminator (snd i)) (insts b))"

text \<open>
  \<open>Function::size\<close>, \<open>BasicBlock::size\<close> (and the sizes of all blocks of a function, in
  program order), \<open>BasicBlock::isEntryBlock\<close>.
\<close>

definition Function_size :: "func \<Rightarrow> nat" where
  "Function_size F = length (blocks F)"

definition BasicBlock_size :: "func \<Rightarrow> blockref \<Rightarrow> nat" where
  "BasicBlock_size F bb = length (insts (blocks F ! bb))"

definition block_sizes :: "func \<Rightarrow> nat list" where
  "block_sizes F = map (\<lambda>b. length (insts b)) (blocks F)"

definition isEntryBlock :: "blockref \<Rightarrow> bool" where
  "isEntryBlock bb = (bb = 0)"

text \<open>
  \<open>Function::isDeclaration\<close> (the function has no body),
  \<open>Function::isIntrinsic\<close> (its name starts with \<open>llvm.\<close>) and
  \<open>Function::hasFnAttribute\<close>.
\<close>

definition isDeclaration :: "func \<Rightarrow> bool" where
  "isDeclaration F = (blocks F = [])"

definition isIntrinsic :: "func \<Rightarrow> bool" where
  "isIntrinsic F = (take 5 (fname F) = ''llvm.'')"

definition hasFnAttribute :: "func \<Rightarrow> attribute \<Rightarrow> bool" where
  "hasFnAttribute F a = (a \<in> set (attrs F))"

text \<open>
  \<open>BasicBlock::Create(context, name, &F)\<close> with no insert-before argument: a new empty
  block is appended to the end of the function's block list.
\<close>

definition BasicBlock_Create :: "string \<Rightarrow> func \<Rightarrow> blockref \<times> func" where
  "BasicBlock_Create name F =
     (length (blocks F), F\<lparr>blocks := blocks F @ [\<lparr>bname = name, insts = []\<rparr>]\<rparr>)"

text \<open>
  The insertion point of an \<open>IRBuilder\<close>.  \<open>IRBuilder<> b(BB)\<close> appends to the end of
  block \<open>BB\<close> (after whatever the block already holds); \<open>IRBuilder<> b(I)\<close> inserts
  immediately before instruction \<open>I\<close>.
\<close>

datatype ipoint = AtEnd blockref | Before blockref valueid

definition update_insts :: "blockref \<Rightarrow> (inst list \<Rightarrow> inst list) \<Rightarrow> func \<Rightarrow> func" where
  "update_insts bb f F =
     (if bb < length (blocks F)
      then F\<lparr>blocks := (blocks F)[bb := (blocks F ! bb)\<lparr>insts := f (insts (blocks F ! bb))\<rparr>]\<rparr>
      else F)"

fun insert_before :: "valueid \<Rightarrow> inst \<Rightarrow> inst list \<Rightarrow> inst list" where
  "insert_before t new [] = []"
| "insert_before t new (i # is) =
     (if fst i = t then new # i # is else i # insert_before t new is)"

definition Insert :: "ipoint \<Rightarrow> opcode \<Rightarrow> func \<Rightarrow> valueid \<times> func" where
  "Insert ip opc F =
     (let n = next_id F; F' = F\<lparr>next_id := n + 1\<rparr>
      in case ip of
           AtEnd bb \<Rightarrow> (n, update_insts bb (\<lambda>is. is @ [(n, opc)]) F')
         | Before bb t \<Rightarrow> (n, update_insts bb (insert_before t (n, opc)) F'))"

text \<open>
  The builder calls that may fold.  Two integer constants fold to the constant result,
  modulo \<open>2 ^ 32\<close>; a comparison of two integer constants folds to a constant truth
  value.  (A constant shift by 32 or more, which the passes never build, is left as an
  instruction.)
\<close>

fun fold_binop :: "(i32 \<Rightarrow> i32 \<Rightarrow> i32) \<Rightarrow> val \<Rightarrow> val \<Rightarrow> val option" where
  "fold_binop f (ConstInt x) (ConstInt y) = Some (ConstInt (f x y))"
| "fold_binop f a b = None"

fun fold_shl :: "val \<Rightarrow> val \<Rightarrow> val option" where
  "fold_shl (ConstInt x) (ConstInt y) =
     (if unat y < 32 then Some (ConstInt (push_bit (unat y) x)) else None)"
| "fold_shl a b = None"

fun fold_icmp_eq :: "val \<Rightarrow> val \<Rightarrow> val option" where
  "fold_icmp_eq (ConstInt x) (ConstInt y) = Some (ConstBool (x = y))"
| "fold_icmp_eq a b = None"

definition CreateInst :: "ipoint \<Rightarrow> opcode \<Rightarrow> func \<Rightarrow> val \<times> func" where
  "CreateInst ip opc F = (let (n, F') = Insert ip opc F in (Reg n, F'))"

definition CreateAdd :: "ipoint \<Rightarrow> val \<Rightarrow> val \<Rightarrow> func \<Rightarrow> val \<times> func" where
  "CreateAdd ip a b F =
     (case fold_binop (\<lambda>x y. x + y) a b of
        Some c \<Rightarrow> (c, F)
      | None \<Rightarrow> CreateInst ip (Add a b) F)"

definition CreateSub :: "ipoint \<Rightarrow> val \<Rightarrow> val \<Rightarrow> func \<Rightarrow> val \<times> func" where
  "CreateSub ip a b F =
     (case fold_binop (\<lambda>x y. x - y) a b of
        Some c \<Rightarrow> (c, F)
      | None \<Rightarrow> CreateInst ip (Sub a b) F)"

definition CreateMul :: "ipoint \<Rightarrow> val \<Rightarrow> val \<Rightarrow> func \<Rightarrow> val \<times> func" where
  "CreateMul ip a b F =
     (case fold_binop (\<lambda>x y. x * y) a b of
        Some c \<Rightarrow> (c, F)
      | None \<Rightarrow> CreateInst ip (Mul a b) F)"

definition CreateShl :: "ipoint \<Rightarrow> val \<Rightarrow> val \<Rightarrow> func \<Rightarrow> val \<times> func" where
  "CreateShl ip a b F =
     (case fold_shl a b of
        Some c \<Rightarrow> (c, F)
      | None \<Rightarrow> CreateInst ip (Shl a b) F)"

definition CreateICmpEQ :: "ipoint \<Rightarrow> val \<Rightarrow> val \<Rightarrow> func \<Rightarrow> val \<times> func" where
  "CreateICmpEQ ip a b F =
     (case fold_icmp_eq a b of
        Some c \<Rightarrow> (c, F)
      | None \<Rightarrow> CreateInst ip (ICmpEQ a b) F)"

text \<open>\<open>CreateNeg(v)\<close> builds the subtraction \<open>0 - v\<close>.\<close>

definition CreateNeg :: "ipoint \<Rightarrow> val \<Rightarrow> func \<Rightarrow> val \<times> func" where
  "CreateNeg ip v F = CreateSub ip (ConstInt 0) v F"

text \<open>\<open>Instruction::eraseFromParent\<close> for an instruction of block \<open>bb\<close>.\<close>

definition eraseFromParent :: "blockref \<Rightarrow> valueid \<Rightarrow> func \<Rightarrow> func" where
  "eraseFromParent bb t F = update_insts bb (filter (\<lambda>i. fst i \<noteq> t)) F"

section \<open>Flattening (flattening.cpp)\<close>

text \<open>
  \<open>createStateVariable\<close>: the builder is placed on the entry block, so the alloca and
  the store of 0 are appended to the end of the entry block.
\<close>

definition createStateVariable :: "func \<Rightarrow> valueid \<times> func" where
  "createStateVariable F =
     (let (stateVar, F1) = Insert (AtEnd 0) Alloca F;
          (_, F2) = Insert (AtEnd 0) (Store (ConstInt 0) (Reg stateVar)) F1
      in (stateVar, F2))"

text \<open>
  \<open>createDispatcherBlock\<close>: a new block named \<open>dispatcher\<close> holding a load of the
  state variable and a switch over it with a null default destination and no case.
  (The third argument of \<open>CreateSwitch\<close> only reserves room for cases.)
\<close>

definition createDispatcherBlock :: "func \<Rightarrow> valueid \<Rightarrow> blockref \<times> func" where
  "createDispatcherBlock F stateVar =
     (let (dispatcher, F1) = BasicBlock_Create ''dispatcher'' F;
          (state, F2) = Insert (AtEnd dispatcher) (Load (Reg stateVar)) F1;
          (_, F3) = Insert (AtEnd dispatcher) (Switch (Reg state) None []) F2
      in (dispatcher, F3))"

text \<open>
  \<open>restructureBasicBlocks\<close>, first loop body, for \<open>blocks[i]\<close>: the builder is placed
  before the block's terminator; a null terminator makes the builder's constructor
  dereference a null pointer, which is the result \<open>None\<close>.
\<close>

definition restructure_block :: "blockref \<Rightarrow> valueid \<Rightarrow> nat \<Rightarrow> blockref \<Rightarrow> func \<Rightarrow> func option" where
  "restructure_block dispatcher stateVar i bb F =
     (case getTerminator (blocks F ! bb) of
        None \<Rightarrow> None
      | Some t \<Rightarrow>
          (let (_, F1) = Insert (Before bb (fst t))
                           (Store (ConstInt (of_nat (i + 1))) (Reg stateVar)) F;
               (_, F2) = Insert (Before bb (fst t)) (Br dispatcher) F1
           in case getTerminator (blocks F2 ! bb) of
                None \<Rightarrow> None
              | Some t' \<Rightarrow> Some (eraseFromParent bb (fst t') F2)))"

fun restructure_loop :: "blockref \<Rightarrow> valueid \<Rightarrow> nat \<Rightarrow> blockref list \<Rightarrow> func \<Rightarrow> func option" where
  "restructure_loop dispatcher stateVar i [] F = Some F"
| "restructure_loop dispatcher stateVar i (bb # bbs) F =
     (case restructure_block dispatcher stateVar i bb F of
        None \<Rightarrow> None
      | Some F' \<Rightarrow> restructure_loop dispatcher stateVar (i + 1) bbs F')"

text \<open>\<open>SwitchInst::addCase\<close> on the terminator of the dispatcher.\<close>

fun addCase :: "i32 \<Rightarrow> blockref \<Rightarrow> opcode \<Rightarrow> opcode" where
  "addCase c bb (Switch v d cases) = Switch v d (cases @ [(c, bb)])"
| "addCase c bb opc = opc"

fun addCases_loop :: "blockref \<Rightarrow> valueid \<Rightarrow> nat \<Rightarrow> blockref list \<Rightarrow> func \<Rightarrow> func" where
  "addCases_loop dispatcher sw i [] F = F"
| "addCases_loop dispatcher sw i (bb # bbs) F =
     addCases_loop dispatcher sw (i + 1) bbs
       (update_insts dispatcher
          (map (\<lambda>x. if fst x = sw then (fst x, addCase (of_nat (i + 1)) bb (snd x)) else x)) F)"

text \<open>
  \<open>restructureBasicBlocks\<close>: the blocks other than the entry and the dispatcher, in
  program order; the first loop rewrites their ends, the second registers them as
  cases of the dispatcher's switch (\<open>cast<SwitchInst>\<close> of a terminator that is not a
  switch, or of none, aborts: \<open>None\<close>).
\<close>

definition restructureBasicBlocks :: "func \<Rightarrow> blockref \<Rightarrow> valueid \<Rightarrow> func option" where
  "restructureBasicBlocks F dispatcher stateVar =
     (let bbs = filter (\<lambda>bb. bb \<noteq> 0 \<and> bb \<noteq> dispatcher) [0..<length (blocks F)]
      in case restructure_loop dispatcher stateVar 0 bbs F of
           None \<Rightarrow> None
         | Some F1 \<Rightarrow>
             (case getTerminator (blocks F1 ! dispatcher) of
                Some (sw, Switch v d cases) \<Rightarrow> Some (addCases_loop dispatcher sw 0 bbs F1)
              | _ \<Rightarrow> None))"

text \<open>
  \<open>FlatteningPass::runOnFunction\<close>.  The result is the returned flag and the function
  as the pass leaves it; \<open>None\<close> is a run that dereferences a null pointer.  (The line
  written to the diagnostic stream is not modelled.)
\<close>

definition Flattening_runOnFunction :: "func \<Rightarrow> (bool \<times> func) option" where
  "Flattening_runOnFunction F =
     (if Function_size F \<le> 1 then Some (False, F)
      else
        (let (stateVar, F1) = createStateVariable F;
             (dispatcher, F2) = createDispatcherBlock F1 stateVar
         in case restructureBasicBlocks F2 dispatcher stateVar of
              None \<Rightarrow> None
            | Some F3 \<Rightarrow> Some (True, F3)))"

section \<open>The random source\<close>

text \<open>
  Both injection passes call \<open>rand()\<close> of the C library: a deterministic generator
  whose hidden state is global to the process.  The values it returns after seeding
  are a sequence fixed by the seed; \<open>draws k\<close> is the \<open>k\<close>-th of them, and the
  generator's state is the number of calls made so far.  The passes never seed the
  generator themselves.
\<close>

type_synonym draws = "nat \<Rightarrow> nat"

definition rand :: "draws \<Rightarrow> nat \<Rightarrow> nat \<times> nat" where
  "rand ds calls = (ds calls, calls + 1)"

section \<open>Bogus control flow (bogus\_control\_flow.cpp)\<close>

text \<open>
  \<open>shouldAddBogusControlFlow\<close>: \<open>rand()\<close> is only called for a block that is not the
  entry block and holds at least 3 instructions.
\<close>

definition shouldAddBogusControlFlow :: "draws \<Rightarrow> nat \<Rightarrow> func \<Rightarrow> blockref \<Rightarrow> bool \<times> nat" where
  "shouldAddBogusControlFlow ds calls F bb =
     (if isEntryBlock bb \<or> BasicBlock_size F bb < 3 then (False, calls)
      else (let (r, calls') = rand ds calls in (r mod 100 < 50, calls')))"

text \<open>
  \<open>addBogusControlFlow\<close>: the bogus block is appended to the function; the second
  builder is placed on the block \<open>BB\<close> itself, so what it creates is appended to the end
  of \<open>BB\<close>.  \<open>CreateCondBr(c, t, f)\<close> takes the destination for a true condition first.
\<close>

definition addBogusControlFlow :: "func \<Rightarrow> blockref \<Rightarrow> func" where
  "addBogusControlFlow F bb =
     (let (bogusBB, F1) = BasicBlock_Create (''bogus_'' @ bname (blocks F ! bb)) F;
          (fake1, F2) = CreateAdd (AtEnd bogusBB) (ConstInt 0) (ConstInt 0) F1;
          (fake2, F3) = CreateMul (AtEnd bogusBB) fake1 (ConstInt 1) F2;
          (_, F4) = Insert (AtEnd bogusBB) (Br bb) F3;
          (condition, F5) = CreateICmpEQ (AtEnd bb) (ConstInt 0) (ConstInt 0) F4;
          (_, F6) = Insert (AtEnd bb) (CondBr condition bogusBB bb) F5
      in F6)"

text \<open>
  The loop \<open>for (auto &BB : F)\<close> of \<open>runOnFunction\<close>.  Blocks created during the loop
  are appended to the list being walked, so the loop reaches them too.  The result
  holds the \<open>modified\<close> flag, the decision taken for each block visited, in the order of
  the visits (recorded for stating properties; the source does not store them), the
  state of the random source and the function.  The loop ends: a round that injects
  leaves one block fewer of at least 3 instructions ahead, since the block it appends
  holds a single branch.
\<close>

function BogusControlFlow_loop ::
  "draws \<Rightarrow> blockref \<Rightarrow> bool \<Rightarrow> bool list \<Rightarrow> nat \<Rightarrow> func
     \<Rightarrow> bool \<times> bool list \<times> nat \<times> func" where
  "BogusControlFlow_loop ds bb modified decisions calls F =
     (if length (blocks F) \<le> bb then (modified, decisions, calls, F)
      else if fst (shouldAddBogusControlFlow ds calls F bb)
      then BogusControlFlow_loop ds (bb + 1) True (decisions @ [True])
             (snd (shouldAddBogusControlFlow ds calls F bb)) (addBogusControlFlow F bb)
      else BogusControlFlow_loop ds (bb + 1) modified (decisions @ [False])
             (snd (shouldAddBogusControlFlow ds calls F bb)) F)"
  by pat_completeness auto
termination
proof (relation "measure (\<lambda>(ds, bb, modified, decisions, calls, F).
    length (drop bb (block_sizes F)) + length (filter (\<lambda>s. 3 \<le> s) (drop bb (block_sizes F))))")
  show "wf (measure (\<lambda>(ds, bb, modified, decisions, calls, F).
    length (drop bb (block_sizes F)) + length (filter (\<lambda>s. 3 \<le> s) (drop bb (block_sizes F)))))"
    by simp
next
  fix ds :: draws and bb :: blockref and modified :: bool and decisions :: "bool list"
    and calls :: nat and F :: func
  assume inside: "\<not> length (blocks F) \<le> bb"
    and selected: "fst (shouldAddBogusControlFlow ds calls F bb)"
  from inside have lt: "bb < length (block_sizes F)"
    by (simp add: block_sizes_def)
  from selected inside have big: "3 \<le> block_sizes F ! bb"
    by (simp add: shouldAddBogusControlFlow_def BasicBlock_size_def block_sizes_def
        split: if_splits)
  from inside have sizes: "block_sizes (addBogusControlFlow F bb)
      = (block_sizes F)[bb := block_sizes F ! bb + 1] @ [1]"
    by (simp add: addBogusControlFlow_def BasicBlock_Create_def CreateAdd_def CreateMul_def
        CreateICmpEQ_def Insert_def update_insts_def block_sizes_def nth_append
        list_update_append map_update Let_def)
  have here: "drop bb (block_sizes F) = block_sizes F ! bb # drop (Suc bb) (block_sizes F)"
    using lt by (simp add: Cons_nth_drop_Suc)
  have len: "length (block_sizes (addBogusControlFlow F bb)) = Suc (length (block_sizes F))"
    unfolding sizes by simp
  from lt have "drop (Suc bb) (block_sizes (addBogusControlFlow F bb))
      = drop (Suc bb) (block_sizes F) @ [1]"
    unfolding sizes by simp
  with here big lt len
  show "((ds, bb + 1, True, decisions @ [True],
          snd (shouldAddBogusControlFlow ds calls F bb), addBogusControlFlow F bb),
         (ds, bb, modified, decisions, calls, F))
      \<in> measure (\<lambda>(ds, bb, modified, decisions, calls, F).
          length (drop bb (block_sizes F))
            + length (filter (\<lambda>s. 3 \<le> s) (drop bb (block_sizes F))))"
    by simp
next
  fix ds :: draws and bb :: blockref and modified :: bool and decisions :: "bool list"
    and calls :: nat and F :: func
  assume inside: "\<not> length (blocks F) \<le> bb"
  then have lt: "bb < length (block_sizes F)"
    by (simp add: block_sizes_def)
  then have "drop bb (block_sizes F) = block_sizes F ! bb # drop (Suc bb) (block_sizes F)"
    by (simp add: Cons_nth_drop_Suc)
  with lt
  show "((ds, bb + 1, modified, decisions @ [False],
          snd (shouldAddBogusControlFlow ds calls F bb), F),
         (ds, bb, modified, decisions, calls, F))
      \<in> measure (\<lambda>(ds, bb, modified, decisions, calls, F).
          length (drop bb (block_sizes F))
            + length (filter (\<lambda>s. 3 \<le> s) (drop bb (block_sizes F))))"
    by auto
qed

declare BogusControlFlow_loop.simps [simp del]

definition BogusControlFlow_runOnFunction ::
  "draws \<Rightarrow> nat \<Rightarrow> func \<Rightarrow> bool \<times> bool list \<times> nat \<times> func" where
  "BogusControlFlow_runOnFunction ds calls F =
     (if isDeclaration F \<or> Function_size F < 2 then (False, [], calls, F)
      else BogusControlFlow_loop ds 0 False [] calls F)"


section \<open>Opaque predicates (opaque\_predicates.cpp)\<close>

definition shouldAddOpaquePredicate :: "draws \<Rightarrow> nat \<Rightarrow> func \<Rightarrow> blockref \<Rightarrow> bool \<times> nat" where
  "shouldAddOpaquePredicate ds calls F bb =
     (if isEntryBlock bb \<or> BasicBlock_size F bb < 2 then (False, calls)
      else (let (r, calls') = rand ds calls in (r mod 100 < 30, calls')))"

definition addOpaquePredicate :: "func \<Rightarrow> blockref \<Rightarrow> func" where
  "addOpaquePredicate F bb =
     (let (fakeBB, F1) = BasicBlock_Create (''fake_'' @ bname (blocks F ! bb)) F;
          (fake1, F2) = CreateAdd (AtEnd fakeBB) (ConstInt 0) (ConstInt 0) F1;
          (fake2, F3) = CreateMul (AtEnd fakeBB) fake1 (ConstInt 1) F2;
          (_, F4) = Insert (AtEnd fakeBB) (Br bb) F3;
          x = ConstInt 42;
          y = ConstInt 42;
          (condition, F5) = CreateICmpEQ (AtEnd bb) x y F4;
          (_, F6) = Insert (AtEnd bb) (CondBr condition bb fakeBB) F5
      in F6)"

text \<open>
  The loop of \<open>runOnFunction\<close>, as for the bogus control flow; here a block of at least 2
  instructions is eligible, and the block a round appends still holds a single branch.
\<close>

function OpaquePredicates_loop ::
  "draws \<Rightarrow> blockref \<Rightarrow> bool \<Rightarrow> bool list \<Rightarrow> nat \<Rightarrow> func
     \<Rightarrow> bool \<times> bool list \<times> nat \<times> func" where
  "OpaquePredicates_loop ds bb modified decisions calls F =
     (if length (blocks F) \<le> bb then (modified, decisions, calls, F)
      else if fst (shouldAddOpaquePredicate ds calls F bb)
      then OpaquePredicates_loop ds (bb + 1) True (decisions @ [True])
             (snd (shouldAddOpaquePredicate ds calls F bb)) (addOpaquePredicate F bb)
      else OpaquePredicates_loop ds (bb + 1) modified (decisions @ [False])
             (snd (shouldAddOpaquePredicate ds calls F bb)) F)"
  by pat_completeness auto
termination
proof (relation "measure (\<lambda>(ds, bb, modified, decisions, calls, F).
    length (drop bb (block_sizes F)) + length (filter (\<lambda>s. 2 \<le> s) (drop bb (block_sizes F))))")
  show "wf (measure (\<lambda>(ds, bb, modified, decisions, calls, F).
    length (drop bb (block_sizes F)) + length (filter (\<lambda>s. 2 \<le> s) (drop bb (block_sizes F)))))"
    by simp
next
  fix ds :: draws and bb :: blockref and modified :: bool and decisions :: "bool list"
    and calls :: nat and F :: func
  assume inside: "\<not> length (blocks F) \<le> bb"
    and selected: "fst (shouldAddOpaquePredicate ds calls F bb)"
  from inside have lt: "bb < length (block_sizes F)"
    by (simp add: block_sizes_def)
  from selected inside have big: "2 \<le> block_sizes F ! bb"
    by (simp add: shouldAddOpaquePredicate_def BasicBlock_size_def block_sizes_def
        split: if_splits)
  from inside have sizes: "block_sizes (addOpaquePredicate F bb)
      = (block_sizes F)[bb := block_sizes F ! bb + 1] @ [1]"
    by (simp add: addOpaquePredicate_def BasicBlock_Create_def CreateAdd_def CreateMul_def
        CreateICmpEQ_def Insert_def update_insts_def block_sizes_def nth_append
        list_update_append map_update Let_def)
  have here: "drop bb (block_sizes F) = block_sizes F ! bb # drop (Suc bb) (block_sizes F)"
    using lt by (simp add: Cons_nth_drop_Suc)
  have len: "length (block_sizes (addOpaquePredicate F bb)) = Suc (length (block_sizes F))"
    unfolding sizes by simp
  from lt have "drop (Suc bb) (block_sizes (addOpaquePredicate F bb))
      = drop (Suc bb) (block_sizes F) @ [1]"
    unfolding sizes by simp
  with here big lt len
  show "((ds, bb + 1, True, decisions @ [True],
          snd (shouldAddOpaquePredicate ds calls F bb), addOpaquePredicate F bb),
         (ds, bb, modified, decisions, calls, F))
      \<in> measure (\<lambda>(ds, bb, modified, decisions, calls, F).
          length (drop bb (block_sizes F))
            + length (filter (\<lambda>s. 2 \<le> s) (drop bb (block_sizes F))))"
    by simp
next
  fix ds :: draws and bb :: blockref and modified :: bool and decisions :: "bool list"
    and calls :: nat and F :: func
  assume inside: "\<not> length (blocks F) \<le> bb"
  then have lt: "bb < length (block_sizes F)"
    by (simp add: block_sizes_def)
  then have "drop bb (block_sizes F) = block_sizes F ! bb # drop (Suc bb) (block_sizes F)"
    by (simp add: Cons_nth_drop_Suc)
  with lt
  show "((ds, bb + 1, modified, decisions @ [False],
          snd (shouldAddOpaquePredicate ds calls F bb), F),
         (ds, bb, modified, decisions, calls, F))
      \<in> measure (\<lambda>(ds, bb, modified, decisions, calls, F).
          length (drop bb (block_sizes F))
            + length (filter (\<lambda>s. 2 \<le> s) (drop bb (block_sizes F))))"
    by auto
qed

declare OpaquePredicates_loop.simps [simp del]

definition OpaquePredicates_runOnFunction ::
  "draws \<Rightarrow> nat \<Rightarrow> func \<Rightarrow> bool \<times> bool list \<times> nat \<times> func" where
  "OpaquePredicates_runOnFunction ds calls F =
     OpaquePredicates_loop ds 0 False [] calls F"

section \<open>Eligibility predicates (llvm\_utils.cpp)\<close>

definition shouldObfuscateFunction :: "func \<Rightarrow> bool" where
  "shouldObfuscateFunction F =
     (if isDeclaration F \<or> isIntrinsic F then False
      else if hasFnAttribute F NoInline \<or> hasFnAttribute F AlwaysInline then False
      else True)"

fun isSafeToReplace :: "opcode \<Rightarrow> bool" where
  "isSafeToReplace (PHI _) = False"
| "isSafeToReplace LandingPad = False"
| "isSafeToReplace _ = True"

section \<open>Configuration (config\_parser.cpp)\<close>

text \<open>The member \<open>config_\<close> of \<open>ConfigParser\<close>, a \<open>std::map\<close> from strings to strings.\<close>

type_synonym config = "string \<rightharpoonup> string"

definition getValue :: "config \<Rightarrow> string \<Rightarrow> string \<Rightarrow> string" where
  "getValue config key defaultValue =
     (case config key of Some v \<Rightarrow> v | None \<Rightarrow> defaultValue)"

definition setValue :: "config \<Rightarrow> string \<Rightarrow> string \<Rightarrow> config" where
  "setValue config key v = config(key \<mapsto> v)"

definition isPassEnabled :: "config \<Rightarrow> string \<Rightarrow> bool" where
  "isPassEnabled config passName =
     (getValue config (passName @ ''.enabled'') ''false'' = ''true'')"

section \<open>Instruction substitution (instruction\_substitution.cpp)\<close>

fun shouldSubstitute :: "opcode \<Rightarrow> bool" where
  "shouldSubstitute (Add _ _) = True"
| "shouldSubstitute (Sub _ _) = True"
| "shouldSubstitute (Mul _ _) = True"
| "shouldSubstitute (Div _ _) = True"
| "shouldSubstitute _ = False"

text \<open>
  \<open>Value::replaceAllUsesWith\<close>: every operand of every instruction of the function
  that is the value \<open>r\<close> becomes \<open>new\<close>.
\<close>

fun subst_val :: "valueid \<Rightarrow> val \<Rightarrow> val \<Rightarrow> val" where
  "subst_val r new (Reg x) = (if x = r then new else Reg x)"
| "subst_val r new v = v"

fun subst_opcode :: "valueid \<Rightarrow> val \<Rightarrow> opcode \<Rightarrow> opcode" where
  "subst_opcode r new Alloca = Alloca"
| "subst_opcode r new (Store v p) = Store (subst_val r new v) (subst_val r new p)"
| "subst_opcode r new (Load p) = Load (subst_val r new p)"
| "subst_opcode r new (Add a b) = Add (subst_val r new a) (subst_val r new b)"
| "subst_opcode r new (Sub a b) = Sub (subst_val r new a) (subst_val r new b)"
| "subst_opcode r new (Mul a b) = Mul (subst_val r new a) (subst_val r new b)"
| "subst_opcode r new (Div a b) = Div (subst_val r new a) (subst_val r new b)"
| "subst_opcode r new (Shl a b) = Shl (subst_val r new a) (subst_val r new b)"
| "subst_opcode r new (ICmpEQ a b) = ICmpEQ (subst_val r new a) (subst_val r new b)"
| "subst_opcode r new (GetElementPtr p idx) =
     GetElementPtr (subst_val r new p) (map (subst_val r new) idx)"
| "subst_opcode r new (Call f args) = Call f (map (subst_val r new) args)"
| "subst_opcode r new (PHI ins) = PHI (map (\<lambda>x. (subst_val r new (fst x), snd x)) ins)"
| "subst_opcode r new LandingPad = LandingPad"
| "subst_opcode r new (Br t) = Br t"
| "subst_opcode r new (CondBr c t f) = CondBr (subst_val r new c) t f"
| "subst_opcode r new (Switch v d cases) = Switch (subst_val r new v) d cases"
| "subst_opcode r new (Ret v) = Ret (map_option (subst_val r new) v)"

definition subst_inst :: "valueid \<Rightarrow> val \<Rightarrow> inst \<Rightarrow> inst" where
  "subst_inst r new i = (fst i, subst_opcode r new (snd i))"

definition subst_block :: "valueid \<Rightarrow> val \<Rightarrow> block \<Rightarrow> block" where
  "subst_block r new b = b\<lparr>insts := map (subst_inst r new) (insts b)\<rparr>"

definition replaceAllUsesWith :: "valueid \<Rightarrow> val \<Rightarrow> func \<Rightarrow> func" where
  "replaceAllUsesWith r new F = F\<lparr>blocks := map (subst_block r new) (blocks F)\<rparr>"

text \<open>
  \<open>Instruction::getOperand\<close> and friends: the value operands of an instruction, in
  order (the destinations of a branch are not value operands).
\<close>

fun operands :: "opcode \<Rightarrow> val list" where
  "operands Alloca = []"
| "operands (Store v p) = [v, p]"
| "operands (Load p) = [p]"
| "operands (Add a b) = [a, b]"
| "operands (Sub a b) = [a, b]"
| "operands (Mul a b) = [a, b]"
| "operands (Div a b) = [a, b]"
| "operands (Shl a b) = [a, b]"
| "operands (ICmpEQ a b) = [a, b]"
| "operands (GetElementPtr p idx) = p # idx"
| "operands (Call f args) = args"
| "operands (PHI ins) = map fst ins"
| "operands LandingPad = []"
| "operands (Br t) = []"
| "operands (CondBr c t f) = [c]"
| "operands (Switch v d cases) = [v]"
| "operands (Ret v) = (case v of None \<Rightarrow> [] | Some x \<Rightarrow> [x])"

text \<open>
  \<open>substituteInstruction(I, BB)\<close>: the builder is placed before \<open>I\<close>.  There is no
  branch for a division, and none of the branches looks at the value of an operand.
\<close>

definition substituteInstruction :: "func \<Rightarrow> blockref \<Rightarrow> valueid \<Rightarrow> func" where
  "substituteInstruction F bb I =
     (case map_of (insts (blocks F ! bb)) I of
        Some (Add a b) \<Rightarrow>
          (let (negB, F1) = CreateNeg (Before bb I) b F;
               (result, F2) = CreateSub (Before bb I) a negB F1;
               F3 = replaceAllUsesWith I result F2
           in eraseFromParent bb I F3)
      | Some (Sub a b) \<Rightarrow>
          (let (negB, F1) = CreateNeg (Before bb I) b F;
               (result, F2) = CreateAdd (Before bb I) a negB F1;
               F3 = replaceAllUsesWith I result F2
           in eraseFromParent bb I F3)
      | Some (Mul a b) \<Rightarrow>
          (let (shifted, F1) = CreateShl (Before bb I) a (ConstInt 1) F;
               (result, F2) = CreateAdd (Before bb I) shifted a F1;
               F3 = replaceAllUsesWith I result F2
           in eraseFromParent bb I F3)
      | _ \<Rightarrow> F)"

section \<open>The value of integer instructions\<close>

text \<open>
  What the 32-bit integer instructions compute, for comparing an instruction with its
  replacement.  An environment gives every value that is not a constant (a function
  argument, the result of an instruction) its run-time value.  Arithmetic is modulo
  \<open>2 ^ 32\<close>; a shift by 32 or more has no defined result; a truth value is 1 for true
  and 0 for false.  Pointers and the other instructions are outside this fragment
  (\<open>None\<close>).
\<close>

type_synonym env = "valueid \<Rightarrow> i32"

fun eval_val :: "env \<Rightarrow> val \<Rightarrow> i32 option" where
  "eval_val e (ConstInt c) = Some c"
| "eval_val e (ConstBool b) = Some (if b then 1 else 0)"
| "eval_val e (Reg r) = Some (e r)"
| "eval_val e (GlobalVariable g) = None"

definition eval_binop :: "(i32 \<Rightarrow> i32 \<Rightarrow> i32 option) \<Rightarrow> env \<Rightarrow> val \<Rightarrow> val \<Rightarrow> i32 option" where
  "eval_binop f e a b =
     (case eval_val e a of
        None \<Rightarrow> None
      | Some x \<Rightarrow> (case eval_val e b of None \<Rightarrow> None | Some y \<Rightarrow> f x y))"

fun eval_opcode :: "env \<Rightarrow> opcode \<Rightarrow> i32 option" where
  "eval_opcode e (Add a b) = eval_binop (\<lambda>x y. Some (x + y)) e a b"
| "eval_opcode e (Sub a b) = eval_binop (\<lambda>x y. Some (x - y)) e a b"
| "eval_opcode e (Mul a b) = eval_binop (\<lambda>x y. Some (x * y)) e a b"
| "eval_opcode e (Shl a b) =
     eval_binop (\<lambda>x y. if unat y < 32 then Some (push_bit (unat y) x) else None) e a b"
| "eval_opcode e (ICmpEQ a b) = eval_binop (\<lambda>x y. Some (if x = y then 1 else 0)) e a b"
| "eval_opcode e _ = None"

text \<open>Running a straight-line sequence: each result is stored under its instruction.\<close>

fun exec_insts :: "env \<Rightarrow> inst list \<Rightarrow> env" where
  "exec_insts e [] = e"
| "exec_insts e (i # is) =
     (case eval_opcode e (snd i) of
        None \<Rightarrow> exec_insts e is
      | Some v \<Rightarrow> exec_insts (e(fst i := v)) is)"

section \<open>String encryption (string\_encryption.cpp)\<close>














section \<open>Example inputs\<close>

text \<open>
  Three blocks in a chain: \<open>entry\<close> branches to \<open>a\<close>, \<open>a\<close> branches to \<open>b\<close>, \<open>b\<close> returns.
\<close>

definition flat_example :: func where
  "flat_example =
     \<lparr>fname = ''f'', attrs = [],
      blocks = [\<lparr>bname = ''entry'', insts = [(0, Br 1)]\<rparr>,
                \<lparr>bname = ''a'', insts = [(1, Br 2)]\<rparr>,
                \<lparr>bname = ''b'', insts = [(2, Ret None)]\<rparr>],
      next_id = 3\<rparr>"

text \<open>
  Two blocks: \<open>entry\<close> branches to \<open>body\<close>, which computes \<open>(x + 1) * 3\<close> from the
  function's argument \<open>x\<close> (the value 0) and returns it.
\<close>

definition inject_example :: func where
  "inject_example =
     \<lparr>fname = ''g'', attrs = [],
      blocks = [\<lparr>bname = ''entry'', insts = [(1, Br 1)]\<rparr>,
                \<lparr>bname = ''body'',
                 insts = [(2, Add (Reg 0) (ConstInt 1)),
                          (3, Mul (Reg 2) (ConstInt 3)),
                          (4, Ret (Some (Reg 3)))]\<rparr>],
      next_id = 5\<rparr>"

text \<open>One block returning \<open>x + y\<close> for the arguments \<open>x\<close> (value 0) and \<open>y\<close> (value 1).\<close>

definition add_example :: func where
  "add_example =
     \<lparr>fname = ''sum'', attrs = [],
      blocks = [\<lparr>bname = ''entry'',
                 insts = [(2, Add (Reg 0) (Reg 1)), (3, Ret (Some (Reg 2)))]\<rparr>],
      next_id = 4\<rparr>"

text \<open>One block returning the sum of the constants 1 and 2.\<close>

definition add_constants_example :: func where
  "add_constants_example =
     \<lparr>fname = ''three'', attrs = [],
      blocks = [\<lparr>bname = ''entry'',
                 insts = [(0, Add (ConstInt 1) (ConstInt 2)), (1, Ret (Some (Reg 0)))]\<rparr>],
      next_id = 2\<rparr>"

text \<open>One block returning \<open>x * 2\<close> for the argument \<open>x\<close> (value 0).\<close>

definition mul_example :: func where
  "mul_example =
     \<lparr>fname = ''twice'', attrs = [],
      blocks = [\<lparr>bname = ''entry'',
                 insts = [(1, Mul (Reg 0) (ConstInt 2)), (2, Ret (Some (Reg 1)))]\<rparr>],
      next_id = 3\<rparr>"






text \<open>A random source whose first value is 38 and whose later values are 58.\<close>

definition draws_38_58 :: draws where
  "draws_38_58 k = (if k = 0 then 38 else 58)"

text \<open>A random source whose first value is 13 and whose later values are 58.\<close>

definition draws_13_58 :: draws where
  "draws_13_58 k = (if k = 0 then 13 else 58)"



section \<open>Well-formedness of operands\<close>

text \<open>
  An operand that exists when an instruction is created names a value whose identity
  has already been handed out.
\<close>

fun val_below :: "nat \<Rightarrow> val \<Rightarrow> bool" where
  "val_below n (Reg r) = (r < n)"
| "val_below n v = True"

text \<open>
  The operands of a 32-bit integer instruction: integer constants, and values computed
  at run time (function arguments and results of instructions).
\<close>

fun i32_operand :: "val \<Rightarrow> bool" where
  "i32_operand (ConstInt c) = True"
| "i32_operand (Reg r) = True"
| "i32_operand v = False"

section \<open>The replacement of an addition\<close>

text \<open>
  What the identity \<open>a + b = a - (-b)\<close> asks the pass to leave in the place of an addition
  \<open>a + b\<close>, given that the builder folds constants, and the value that then stands for
  the sum; \<open>n\<close> is the first unused instruction identity.  When \<open>b\<close> is not a constant:
  the negation \<open>0 - b\<close> and the subtraction of it from \<open>a\<close>, the sum being the
  subtraction.  When only \<open>b\<close> is a constant: the subtraction of the constant \<open>-b\<close> from
  \<open>a\<close>.  When both are constants: no instruction, the sum being the constant
  \<open>a - (-b)\<close>.
\<close>

fun add_replacement :: "nat \<Rightarrow> val \<Rightarrow> val \<Rightarrow> inst list \<times> val" where
  "add_replacement n (ConstInt x) (ConstInt y) = ([], ConstInt (x - (0 - y)))"
| "add_replacement n a (ConstInt y) = ([(n, Sub a (ConstInt (0 - y)))], Reg n)"
| "add_replacement n a b = ([(n, Sub (ConstInt 0) b), (n + 1, Sub a (Reg n))], Reg (n + 1))"

section \<open>Results\<close>

subsection \<open>Auxiliary facts\<close>

lemma map_of_at: "I \<notin> fst ` set pre \<Longrightarrow> map_of (pre @ (I, x) # post) I = Some x"
  by (induction pre) auto

lemma insert_before_at:
  "I \<notin> fst ` set pre \<Longrightarrow>
   insert_before I new (pre @ (I, x) # post) = pre @ new # (I, x) # post"
  by (induction pre) auto

lemma filter_subst_other:
  "I \<notin> fst ` set xs \<Longrightarrow>
   filter (\<lambda>i. fst i \<noteq> I) (map (subst_inst I v) xs) = map (subst_inst I v) xs"
  by (induction xs) (auto simp: subst_inst_def)

lemma fst_subst_inst: "fst ` subst_inst I v ` S = fst ` S"
  by (simp add: image_image subst_inst_def)

lemma subst_val_other: "a \<noteq> Reg I \<Longrightarrow> subst_val I v a = a"
  by (cases a) auto

lemma subst_val_if: "subst_val I new v = (if v = Reg I then new else v)"
  by (cases v) auto

lemma operands_subst_opcode:
  "operands (subst_opcode I new opc) = map (\<lambda>v. if v = Reg I then new else v) (operands opc)"
  by (cases opc) (auto simp: subst_val_if comp_def split: option.splits)

lemma no_use_after_subst:
  "new \<noteq> Reg I \<Longrightarrow> Reg I \<notin> set (operands (subst_opcode I new opc))"
  by (auto simp: operands_subst_opcode)

lemma eval_val_fresh: "val_below n a \<Longrightarrow> eval_val (e(n := w)) a = eval_val e a"
  by (cases a) auto

lemma fold_binop_right: "\<forall>y. b \<noteq> ConstInt y \<Longrightarrow> fold_binop f a b = None"
  by (cases a; cases b) auto

lemma fold_binop_left: "\<forall>x. a \<noteq> ConstInt x \<Longrightarrow> fold_binop f a b = None"
  by (cases a; cases b) auto

lemma add_replacement_right:
  "\<forall>y. b \<noteq> ConstInt y \<Longrightarrow>
   add_replacement n a b = ([(n, Sub (ConstInt 0) b), (n + 1, Sub a (Reg n))], Reg (n + 1))"
  by (cases a; cases b) auto

lemma add_replacement_left:
  "\<forall>x. a \<noteq> ConstInt x \<Longrightarrow>
   add_replacement n a (ConstInt y) = ([(n, Sub a (ConstInt (0 - y)))], Reg n)"
  by (cases a) auto

text \<open>
  The structure of the function after \<open>substituteInstruction\<close> has replaced an addition:
  the replacement stands where the addition stood, and every operand of the function
  that was the addition is now the value of the replacement.
\<close>

lemma substitute_add_blocks:
  assumes bb: "bb < length (blocks F)"
    and at: "insts (blocks F ! bb) = pre @ (I, Add a b) # post"
    and pre: "I \<notin> fst ` set pre" and post: "I \<notin> fst ` set post"
    and old: "I < next_id F"
    and a: "a \<noteq> Reg I" and b: "b \<noteq> Reg I"
  shows "blocks (substituteInstruction F bb I) =
       (map (subst_block I (snd (add_replacement (next_id F) a b))) (blocks F))
         [bb := (blocks F ! bb)\<lparr>insts :=
                     map (subst_inst I (snd (add_replacement (next_id F) a b))) pre
                   @ fst (add_replacement (next_id F) a b)
                   @ map (subst_inst I (snd (add_replacement (next_id F) a b))) post\<rparr>]"
proof -
  let ?n = "next_id F"
  have look: "map_of (insts (blocks F ! bb)) I = Some (Add a b)"
    unfolding at using pre by (rule map_of_at)
  show ?thesis
  proof (cases "\<exists>y. b = ConstInt y")
    case False
    then have nb: "\<forall>y. b \<noteq> ConstInt y"
      by simp
    have ins1: "insert_before I (?n, Sub (ConstInt 0) b) (insts (blocks F ! bb))
        = pre @ (?n, Sub (ConstInt 0) b) # (I, Add a b) # post"
      unfolding at using pre by (rule insert_before_at)
    have pre': "I \<notin> fst ` set (pre @ [(?n, Sub (ConstInt 0) b)])"
      using pre old by auto
    have ins2: "insert_before I (?n + 1, Sub a (Reg ?n))
          ((pre @ [(?n, Sub (ConstInt 0) b)]) @ (I, Add a b) # post)
        = (pre @ [(?n, Sub (ConstInt 0) b)]) @ (?n + 1, Sub a (Reg ?n)) # (I, Add a b) # post"
      using pre' by (rule insert_before_at)
    show ?thesis
      using bb old a b pre post ins2
      by (simp add: substituteInstruction_def look CreateNeg_def CreateSub_def CreateInst_def
          fold_binop_right [OF nb] add_replacement_right [OF nb]
          Insert_def update_insts_def ins1 replaceAllUsesWith_def eraseFromParent_def
          subst_block_def filter_subst_other subst_inst_def subst_val_other map_update Let_def)
  next
    case True
    then obtain y where y: "b = ConstInt y"
      by blast
    show ?thesis
    proof (cases "\<exists>x. a = ConstInt x")
      case False
      then have na: "\<forall>x. a \<noteq> ConstInt x"
        by simp
      have ins1: "insert_before I (?n, Sub a (ConstInt (- y))) (insts (blocks F ! bb))
          = pre @ (?n, Sub a (ConstInt (- y))) # (I, Add a b) # post"
        unfolding at using pre by (rule insert_before_at)
      show ?thesis
        using bb old a pre post
        by (simp add: substituteInstruction_def look CreateNeg_def CreateSub_def CreateInst_def
            y fold_binop_left [OF na] add_replacement_left [OF na]
            Insert_def update_insts_def ins1 replaceAllUsesWith_def
            eraseFromParent_def subst_block_def filter_subst_other subst_inst_def
            subst_val_other map_update Let_def)
    next
      case True
      then obtain x where x: "a = ConstInt x"
        by blast
      have look': "map_of (insts (blocks F ! bb)) I = Some (Add (ConstInt x) (ConstInt y))"
        using look by (simp add: x y)
      have erased: "filter (\<lambda>i. fst i \<noteq> I) (map (subst_inst I v) (insts (blocks F ! bb)))
          = map (subst_inst I v) pre @ map (subst_inst I v) post" for v
        unfolding at using pre post by (simp add: filter_subst_other) (simp add: subst_inst_def)
      show ?thesis
        using bb
        by (simp add: substituteInstruction_def look' CreateNeg_def CreateSub_def
            x y update_insts_def replaceAllUsesWith_def eraseFromParent_def subst_block_def
            erased map_update Let_def)
    qed
  qed
qed

lemma substitute_add_value:
  assumes "val_below n a" and "eval_opcode e (Add a b) = Some v"
  shows "eval_val (exec_insts e (fst (add_replacement n a b))) (snd (add_replacement n a b))
      = Some v"
proof (cases "\<exists>y. b = ConstInt y")
  case False
  then have nb: "\<forall>y. b \<noteq> ConstInt y"
    by simp
  show ?thesis
    using assms
    by (auto simp: add_replacement_right [OF nb] eval_binop_def eval_val_fresh
        split: option.splits)
next
  case True
  then obtain y where y: "b = ConstInt y"
    by blast
  show ?thesis
  proof (cases "\<exists>x. a = ConstInt x")
    case False
    then have na: "\<forall>x. a \<noteq> ConstInt x"
      by simp
    show ?thesis
      using assms
      by (auto simp: y add_replacement_left [OF na] eval_binop_def split: option.splits)
  next
    case True
    then obtain x where x: "a = ConstInt x"
      by blast
    show ?thesis
      using assms by (auto simp: x y eval_binop_def)
  qed
qed

lemma add_replacement_operands:
  assumes "a \<noteq> Reg I" and "b \<noteq> Reg I" and "I < n"
  shows "snd (add_replacement n a b) \<noteq> Reg I"
    and "I \<notin> fst ` set (fst (add_replacement n a b))"
    and "\<forall>i \<in> set (fst (add_replacement n a b)). Reg I \<notin> set (operands (snd i))"
  using assms by (cases a; cases b; auto)+
















subsection \<open>Flattening\<close>

text \<open>
  C1.  The specification has every relocated block end with a store of the state number
  of its original successor, followed by a branch to the dispatcher, so that running
  the block passes control to that successor.  \<open>restructureBasicBlocks\<close> stores \<open>i + 1\<close> in
  \<open>blocks[i]\<close> and registers the same \<open>i + 1\<close> as the case of \<open>blocks[i]\<close>: the number
  stored is the block's own.  On the chain \<open>entry\<close>, \<open>a\<close>, \<open>b\<close> the dispatcher maps 1 to
  \<open>a\<close> and 2 to \<open>b\<close>; block \<open>a\<close>, whose successor was \<open>b\<close>, ends with the store of 1 and
  the branch to the dispatcher (block 3), and block \<open>b\<close>, which returned, ends with the
  store of 2 and the same branch.
\<close>

theorem flattening_stores_own_state:
  "Flattening_runOnFunction flat_example =
     Some (True,
       \<lparr>fname = ''f'', attrs = [],
        blocks =
          [\<lparr>bname = ''entry'',
            insts = [(0, Br 1), (3, Alloca), (4, Store (ConstInt 0) (Reg 3))]\<rparr>,
           \<lparr>bname = ''a'',
            insts = [(7, Store (ConstInt 1) (Reg 3)), (8, Br 3)]\<rparr>,
           \<lparr>bname = ''b'',
            insts = [(9, Store (ConstInt 2) (Reg 3)), (10, Br 3)]\<rparr>,
           \<lparr>bname = ''dispatcher'',
            insts = [(5, Load (Reg 3)), (6, Switch (Reg 5) None [(1, 1), (2, 2)])]\<rparr>],
        next_id = 11\<rparr>)"
  by code_simp

text \<open>
  C7.  For every function with at most one basic block, Flattening's
  \<open>runOnFunction\<close> returns false and leaves the function exactly as it was: no state
  variable is allocated (no fresh instruction identity is taken), no dispatcher block
  is created and no block is rewritten.
\<close>

theorem flattening_skips_small_functions:
  "Function_size F \<le> 1 \<Longrightarrow> Flattening_runOnFunction F = Some (False, F)"
  by (simp add: Flattening_runOnFunction_def)

theorem flattening_skips_small_functions_witness:
  "Function_size add_example \<le> 1
   \<and> Flattening_runOnFunction add_example = Some (False, add_example)
   \<and> Function_size (add_example\<lparr>blocks := []\<rparr>) \<le> 1
   \<and> Flattening_runOnFunction (add_example\<lparr>blocks := []\<rparr>)
       = Some (False, add_example\<lparr>blocks := []\<rparr>)"
  using flattening_skips_small_functions [of add_example]
    flattening_skips_small_functions [of "add_example\<lparr>blocks := []\<rparr>"]
  by (simp add: Function_size_def add_example_def)

subsection \<open>Injection of bogus blocks and opaque predicates\<close>

text \<open>
  The two injection passes on the example.  With a first random value of 38 the
  bogus-control-flow pass skips the entry block, selects \<open>body\<close> (\<open>38 < 50\<close>) and leaves
  the block it has just created, a single branch, alone; with a first random value of
  13 the opaque-predicate pass does the same (\<open>13 < 30\<close>).  Either pass calls the random
  source once.
\<close>

lemma bogus_example_blocks:
  "blocks (addBogusControlFlow inject_example 1) =
     [\<lparr>bname = ''entry'', insts = [(1, Br 1)]\<rparr>,
      \<lparr>bname = ''body'',
       insts = [(2, Add (Reg 0) (ConstInt 1)), (3, Mul (Reg 2) (ConstInt 3)),
                (4, Ret (Some (Reg 3))), (6, CondBr (ConstBool True) 2 1)]\<rparr>,
      \<lparr>bname = ''bogus_body'', insts = [(5, Br 1)]\<rparr>]"
  by (simp add: addBogusControlFlow_def inject_example_def BasicBlock_Create_def
      CreateAdd_def CreateMul_def CreateICmpEQ_def Insert_def update_insts_def)

lemma opaque_example_blocks:
  "blocks (addOpaquePredicate inject_example 1) =
     [\<lparr>bname = ''entry'', insts = [(1, Br 1)]\<rparr>,
      \<lparr>bname = ''body'',
       insts = [(2, Add (Reg 0) (ConstInt 1)), (3, Mul (Reg 2) (ConstInt 3)),
                (4, Ret (Some (Reg 3))), (6, CondBr (ConstBool True) 1 2)]\<rparr>,
      \<lparr>bname = ''fake_body'', insts = [(5, Br 1)]\<rparr>]"
  by (simp add: addOpaquePredicate_def inject_example_def BasicBlock_Create_def
      CreateAdd_def CreateMul_def CreateICmpEQ_def Insert_def update_insts_def)

lemma bogus_run_example:
  "BogusControlFlow_runOnFunction draws_38_58 0 inject_example
     = (True, [False, True, False], 1, addBogusControlFlow inject_example 1)"
  by (simp add: BogusControlFlow_runOnFunction_def isDeclaration_def Function_size_def
      BogusControlFlow_loop.simps shouldAddBogusControlFlow_def isEntryBlock_def
      BasicBlock_size_def rand_def draws_38_58_def inject_example_def addBogusControlFlow_def
      BasicBlock_Create_def CreateAdd_def CreateMul_def CreateICmpEQ_def Insert_def
      update_insts_def)

lemma opaque_run_example:
  "OpaquePredicates_runOnFunction draws_13_58 0 inject_example
     = (True, [False, True, False], 1, addOpaquePredicate inject_example 1)"
  by (simp add: OpaquePredicates_runOnFunction_def
      OpaquePredicates_loop.simps shouldAddOpaquePredicate_def isEntryBlock_def
      BasicBlock_size_def rand_def draws_13_58_def inject_example_def addOpaquePredicate_def
      BasicBlock_Create_def CreateAdd_def CreateMul_def CreateICmpEQ_def Insert_def
      update_insts_def)

text \<open>
  C2.  The specification has every block hold exactly one terminator after a pass has
  run.
  Both injection passes place their second builder on the block itself, so the
  conditional branch is appended after the terminator the block already has.  With a
  first random value of 38 the bogus-control-flow pass selects block \<open>body\<close> of the
  example, and with a first random value of 13 the opaque-predicate pass does; in both
  results \<open>body\<close> holds two terminators, its return and, after it, the new conditional
  branch.
\<close>

theorem injection_leaves_two_terminators:
  "BogusControlFlow_runOnFunction draws_38_58 0 inject_example
     = (True, [False, True, False], 1, addBogusControlFlow inject_example 1)
   \<and> map snd (insts (blocks (addBogusControlFlow inject_example 1) ! 1))
     = [Add (Reg 0) (ConstInt 1), Mul (Reg 2) (ConstInt 3), Ret (Some (Reg 3)),
        CondBr (ConstBool True) 2 1]
   \<and> map terminator_count (blocks (addBogusControlFlow inject_example 1)) = [1, 2, 1]
   \<and> OpaquePredicates_runOnFunction draws_13_58 0 inject_example
     = (True, [False, True, False], 1, addOpaquePredicate inject_example 1)
   \<and> map snd (insts (blocks (addOpaquePredicate inject_example 1) ! 1))
     = [Add (Reg 0) (ConstInt 1), Mul (Reg 2) (ConstInt 3), Ret (Some (Reg 3)),
        CondBr (ConstBool True) 1 2]
   \<and> map terminator_count (blocks (addOpaquePredicate inject_example 1)) = [1, 2, 1]"
  unfolding bogus_run_example opaque_run_example bogus_example_blocks opaque_example_blocks
  by (simp add: terminator_count_def)

text \<open>
  C3.  The specification has the false arm of the inserted conditional branch go to
  the bogus block and the true arm to the original continuation, so that the bogus
  block never runs.  \<open>addBogusControlFlow\<close>
  calls \<open>CreateCondBr(condition, bogusBB, &BB)\<close>: the bogus block is the destination for
  a true condition and the block itself the destination for a false one, and the
  condition, \<open>0 == 0\<close> folded by the builder to the constant true, is true in every
  environment.  In the example \<open>body\<close> is block 1 and \<open>bogus_body\<close> block 2, and the
  branch inserted is \<open>CondBr (ConstBool True) 2 1\<close>.
\<close>

theorem bogus_branch_true_arm_is_bogus_block:
  "blocks (addBogusControlFlow inject_example 1) =
     [\<lparr>bname = ''entry'', insts = [(1, Br 1)]\<rparr>,
      \<lparr>bname = ''body'',
       insts = [(2, Add (Reg 0) (ConstInt 1)), (3, Mul (Reg 2) (ConstInt 3)),
                (4, Ret (Some (Reg 3))), (6, CondBr (ConstBool True) 2 1)]\<rparr>,
      \<lparr>bname = ''bogus_body'', insts = [(5, Br 1)]\<rparr>]
   \<and> eval_val e (ConstBool True) = Some 1"
  unfolding bogus_example_blocks
  by simp



subsection \<open>Instruction substitution\<close>

text \<open>
  C4.  Let \<open>I\<close> be a 32-bit addition \<open>a + b\<close> of block \<open>bb\<close>, standing between the
  instructions \<open>pre\<close> and \<open>post\<close>, whose operands are integer constants or values that
  existed before the pass ran, and are not \<open>I\<close> itself.  After \<open>substituteInstruction\<close>
  the block holds, where \<open>I\<close> stood, the replacement that computes \<open>a - (-b)\<close>: the
  negation \<open>0 - b\<close> followed by the subtraction of it from \<open>a\<close> when \<open>b\<close> is not a
  constant, the single subtraction of the constant \<open>-b\<close> from \<open>a\<close> when only \<open>b\<close> is a
  constant, and no instruction when both operands are constants.  Every operand of the
  function that was \<open>I\<close> is now the value of the replacement (its last instruction, or
  the constant \<open>a - (-b)\<close> when both operands are constants) and every other operand is
  what it was; no operand is \<open>I\<close> any more and \<open>I\<close> is no longer in the block; and in
  every environment, at all 32-bit operand values and with arithmetic modulo \<open>2 ^ 32\<close>,
  the value of the replacement after running its instructions is the value of the
  addition, which is the sum of the operands' values modulo \<open>2 ^ 32\<close>.
\<close>

theorem add_substitution_correct:
  assumes "bb < length (blocks F)"
    and "insts (blocks F ! bb) = pre @ (I, Add a b) # post"
    and "I \<notin> fst ` set pre" and "I \<notin> fst ` set post"
    and "I < next_id F"
    and "a \<noteq> Reg I" and "b \<noteq> Reg I"
    and "val_below (next_id F) a"
    and "i32_operand a" and "i32_operand b"
  shows "(case add_replacement (next_id F) a b of
           (seq, result) \<Rightarrow>
             blocks (substituteInstruction F bb I) =
               (map (subst_block I result) (blocks F))
                 [bb := (blocks F ! bb)\<lparr>insts :=
                           map (subst_inst I result) pre @ seq
                         @ map (subst_inst I result) post\<rparr>]
           \<and> (\<forall>opc. operands (subst_opcode I result opc)
                 = map (\<lambda>v. if v = Reg I then result else v) (operands opc))
           \<and> (\<forall>e. eval_val (exec_insts e seq) result = eval_opcode e (Add a b))
           \<and> (\<forall>e. \<exists>x y. eval_val e a = Some x \<and> eval_val e b = Some y
                 \<and> eval_opcode e (Add a b) = Some (x + y)))
     \<and> I \<notin> fst ` set (insts (blocks (substituteInstruction F bb I) ! bb))
     \<and> (\<forall>blk \<in> set (blocks (substituteInstruction F bb I)).
          \<forall>i \<in> set (insts blk). Reg I \<notin> set (operands (snd i)))"
proof -
  obtain seq result where r: "add_replacement (next_id F) a b = (seq, result)"
    by (cases "add_replacement (next_id F) a b")
  have s: "blocks (substituteInstruction F bb I) =
      (map (subst_block I result) (blocks F))
        [bb := (blocks F ! bb)\<lparr>insts :=
                  map (subst_inst I result) pre @ seq @ map (subst_inst I result) post\<rparr>]"
    using substitute_add_blocks [OF assms(1-7)] unfolding r fst_conv snd_conv .
  have o: "\<forall>opc. operands (subst_opcode I result opc)
      = map (\<lambda>v. if v = Reg I then result else v) (operands opc)"
    using operands_subst_opcode by blast
  have w: "\<forall>e. \<exists>x y. eval_val e a = Some x \<and> eval_val e b = Some y
      \<and> eval_opcode e (Add a b) = Some (x + y)"
    using assms(9,10) by (cases a; cases b) (simp_all add: eval_binop_def)
  have v': "\<forall>e v. eval_opcode e (Add a b) = Some v \<longrightarrow>
      eval_val (exec_insts e seq) result = Some v"
    using substitute_add_value [where n = "next_id F" and a = a and b = b, OF assms(8)]
    unfolding r fst_conv snd_conv by blast
  have v: "\<forall>e. eval_val (exec_insts e seq) result = eval_opcode e (Add a b)"
  proof
    fix e
    from w obtain z where "eval_opcode e (Add a b) = Some z"
      by blast
    with v' show "eval_val (exec_insts e seq) result = eval_opcode e (Add a b)"
      by simp
  qed
  from add_replacement_operands [OF assms(6,7,5)]
  have fresh: "result \<noteq> Reg I" "I \<notin> fst ` set seq"
    "\<forall>i \<in> set seq. Reg I \<notin> set (operands (snd i))"
    unfolding r fst_conv snd_conv by blast+
  have here: "(map (subst_block I result) (blocks F))
        [bb := (blocks F ! bb)\<lparr>insts :=
                  map (subst_inst I result) pre @ seq @ map (subst_inst I result) post\<rparr>] ! bb
      = (blocks F ! bb)\<lparr>insts :=
                  map (subst_inst I result) pre @ seq @ map (subst_inst I result) post\<rparr>"
    using assms(1) by simp
  have gone: "I \<notin> fst ` set (insts (blocks (substituteInstruction F bb I) ! bb))"
    unfolding s here using assms(3,4) fresh(2) by (simp add: fst_subst_inst image_Un)
  have subst_unused: "Reg I \<notin> set (operands (snd (subst_inst I result j)))" for j
    using fresh(1) by (simp add: subst_inst_def no_use_after_subst)
  have unused: "Reg I \<notin> set (operands (snd i))"
    if blk: "blk \<in> set (blocks (substituteInstruction F bb I))" and i: "i \<in> set (insts blk)"
    for blk i
  proof -
    have "set ((map (subst_block I result) (blocks F))
        [bb := (blocks F ! bb)\<lparr>insts :=
              map (subst_inst I result) pre @ seq @ map (subst_inst I result) post\<rparr>])
      \<subseteq> insert ((blocks F ! bb)\<lparr>insts :=
              map (subst_inst I result) pre @ seq @ map (subst_inst I result) post\<rparr>)
          (set (map (subst_block I result) (blocks F)))"
      by (rule set_update_subset_insert)
    with blk have "blk \<in> insert ((blocks F ! bb)\<lparr>insts :=
              map (subst_inst I result) pre @ seq @ map (subst_inst I result) post\<rparr>)
          (set (map (subst_block I result) (blocks F)))"
      unfolding s by (rule rev_subsetD)
    then consider (new) "blk = (blocks F ! bb)\<lparr>insts :=
              map (subst_inst I result) pre @ seq @ map (subst_inst I result) post\<rparr>"
      | (old) "blk \<in> subst_block I result ` set (blocks F)"
      by auto
    then show ?thesis
    proof cases
      case new
      with i have "i \<in> subst_inst I result ` set pre \<or> i \<in> set seq
          \<or> i \<in> subst_inst I result ` set post"
        by auto
      with fresh(3) subst_unused show ?thesis
        by blast
    next
      case old
      with i have "i \<in> range (subst_inst I result)"
        by (auto simp: subst_block_def)
      with subst_unused show ?thesis
        by blast
    qed
  qed
  then have unused': "\<forall>blk \<in> set (blocks (substituteInstruction F bb I)).
      \<forall>i \<in> set (insts blk). Reg I \<notin> set (operands (snd i))"
    by blast
  show ?thesis
    unfolding r prod.case
    apply (intro conjI)
         apply (rule s)
        apply (rule o)
       apply (rule v)
      apply (rule w)
     apply (rule gone)
    apply (rule unused')
    done
qed

theorem add_substitution_correct_witness:
  "blocks (substituteInstruction add_example 0 2) =
     [\<lparr>bname = ''entry'',
       insts = [(4, Sub (ConstInt 0) (Reg 1)), (5, Sub (Reg 0) (Reg 4)),
                (3, Ret (Some (Reg 5)))]\<rparr>]
   \<and> 2 \<notin> fst ` set (insts (blocks (substituteInstruction add_example 0 2) ! 0))
   \<and> eval_val (exec_insts (\<lambda>r. if r = 0 then 0x7FFFFFFF else 1)
        [(4, Sub (ConstInt 0) (Reg 1)), (5, Sub (Reg 0) (Reg 4))]) (Reg 5) = Some 0x80000000
   \<and> eval_val (exec_insts (\<lambda>r. if r = 0 then 0x80000000 else 0xFFFFFFFF)
        [(4, Sub (ConstInt 0) (Reg 1)), (5, Sub (Reg 0) (Reg 4))]) (Reg 5) = Some 0x7FFFFFFF
   \<and> blocks (substituteInstruction inject_example 1 2) =
     [\<lparr>bname = ''entry'', insts = [(1, Br 1)]\<rparr>,
      \<lparr>bname = ''body'',
       insts = [(5, Sub (Reg 0) (ConstInt (- 1))), (3, Mul (Reg 5) (ConstInt 3)),
                (4, Ret (Some (Reg 3)))]\<rparr>]
   \<and> eval_val (exec_insts (\<lambda>r. 0x7FFFFFFF) [(5, Sub (Reg 0) (ConstInt (- 1)))]) (Reg 5)
       = Some 0x80000000"
proof -
  have h1: "0 < length (blocks add_example)"
    and h2: "insts (blocks add_example ! 0) = [] @ (2, Add (Reg 0) (Reg 1)) # [(3, Ret (Some (Reg 2)))]"
    and h3: "2 \<notin> fst ` set ([] :: inst list)"
    and h4: "2 \<notin> fst ` set [(3 :: nat, Ret (Some (Reg 2)))]"
    and h5: "2 < next_id add_example"
    and h6: "Reg 0 \<noteq> Reg 2" and h7: "Reg 1 \<noteq> Reg 2"
    and h8: "val_below (next_id add_example) (Reg 0)"
    and h9: "i32_operand (Reg 0)" and h10: "i32_operand (Reg 1)"
    by (simp_all add: add_example_def)
  note t = add_substitution_correct [OF h1 h2 h3 h4 h5 h6 h7 h8 h9 h10]
  have n: "next_id add_example = 4"
    by (simp add: add_example_def)
  from t have s: "blocks (substituteInstruction add_example 0 2) =
     [\<lparr>bname = ''entry'',
       insts = [(4, Sub (ConstInt 0) (Reg 1)), (5, Sub (Reg 0) (Reg 4)),
                (3, Ret (Some (Reg 5)))]\<rparr>]"
    by (simp add: add_example_def subst_block_def subst_inst_def)
  from t have r: "2 \<notin> fst ` set (insts (blocks (substituteInstruction add_example 0 2) ! 0))"
    by blast
  from t have v: "\<And>e.
      eval_val (exec_insts e [(4, Sub (ConstInt 0) (Reg 1)), (5, Sub (Reg 0) (Reg 4))]) (Reg 5)
        = eval_opcode e (Add (Reg 0) (Reg 1))"
    unfolding n by simp
  have v1: "eval_val (exec_insts (\<lambda>r. if r = 0 then 0x7FFFFFFF else 1)
        [(4, Sub (ConstInt 0) (Reg 1)), (5, Sub (Reg 0) (Reg 4))]) (Reg 5) = Some 0x80000000"
    unfolding v by (simp add: eval_binop_def)
  have v2: "eval_val (exec_insts (\<lambda>r. if r = 0 then 0x80000000 else 0xFFFFFFFF)
        [(4, Sub (ConstInt 0) (Reg 1)), (5, Sub (Reg 0) (Reg 4))]) (Reg 5) = Some 0x7FFFFFFF"
    unfolding v by (simp add: eval_binop_def)
  have k1: "1 < length (blocks inject_example)"
    and k2: "insts (blocks inject_example ! 1)
        = [] @ (2, Add (Reg 0) (ConstInt 1)) # [(3, Mul (Reg 2) (ConstInt 3)), (4, Ret (Some (Reg 3)))]"
    and k4: "2 \<notin> fst ` set [(3 :: nat, Mul (Reg 2) (ConstInt 3)), (4, Ret (Some (Reg 3)))]"
    and k5: "2 < next_id inject_example"
    and k7: "ConstInt 1 \<noteq> Reg 2"
    and k8: "val_below (next_id inject_example) (Reg 0)"
    and k10: "i32_operand (ConstInt 1)"
    by (simp_all add: inject_example_def)
  note u = add_substitution_correct [OF k1 k2 h3 k4 k5 h6 k7 k8 h9 k10]
  have m: "next_id inject_example = 5"
    by (simp add: inject_example_def)
  from u have s': "blocks (substituteInstruction inject_example 1 2) =
     [\<lparr>bname = ''entry'', insts = [(1, Br 1)]\<rparr>,
      \<lparr>bname = ''body'',
       insts = [(5, Sub (Reg 0) (ConstInt (- 1))), (3, Mul (Reg 5) (ConstInt 3)),
                (4, Ret (Some (Reg 3)))]\<rparr>]"
    by (simp add: inject_example_def subst_block_def subst_inst_def)
  from u have w: "\<And>e.
      eval_val (exec_insts e [(5, Sub (Reg 0) (ConstInt (- 1)))]) (Reg 5)
        = eval_opcode e (Add (Reg 0) (ConstInt 1))"
    unfolding m by simp
  have w1: "eval_val (exec_insts (\<lambda>r. 0x7FFFFFFF) [(5, Sub (Reg 0) (ConstInt (- 1)))]) (Reg 5)
       = Some 0x80000000"
    unfolding w by (simp add: eval_binop_def)
  from s r v1 v2 s' w1 show ?thesis
    by blast
qed

text \<open>
  The addition of two constants: the builder folds the negation and the subtraction, so
  no instruction is created (the supply of identities is untouched) and the return
  uses the constant 3.
\<close>

theorem add_of_constants_leaves_no_instruction:
  "shouldSubstitute (Add (ConstInt 1) (ConstInt 2))
   \<and> substituteInstruction add_constants_example 0 0 =
       \<lparr>fname = ''three'', attrs = [],
        blocks = [\<lparr>bname = ''entry'', insts = [(1, Ret (Some (ConstInt 3)))]\<rparr>],
        next_id = 2\<rparr>
   \<and> next_id add_constants_example = 2"
  by (simp add: substituteInstruction_def add_constants_example_def CreateNeg_def CreateSub_def
      update_insts_def replaceAllUsesWith_def eraseFromParent_def subst_block_def
      subst_inst_def)

text \<open>
  C5.  The specification has a multiplication replaced by \<open>(a << 1) + a\<close> only when
  its multiplier is the literal 3.  \<open>shouldSubstitute\<close> accepts every multiplication and the
  multiplication branch of \<open>substituteInstruction\<close> never reads the second operand (the
  comment in the source says \<open>for b = 3\<close>).  For the multiplication \<open>x * 2\<close> of the
  example the pass puts the shift and the addition in its place and makes the return
  use the addition; with \<open>x = 1\<close> the multiplication is 2 and the replacement is 3.
\<close>

theorem mul_substitution_ignores_multiplier:
  "shouldSubstitute (Mul (Reg 0) (ConstInt 2))
   \<and> blocks (substituteInstruction mul_example 0 1) =
       [\<lparr>bname = ''entry'',
         insts = [(3, Shl (Reg 0) (ConstInt 1)), (4, Add (Reg 3) (Reg 0)),
                  (2, Ret (Some (Reg 4)))]\<rparr>]
   \<and> eval_opcode (\<lambda>r. 1) (Mul (Reg 0) (ConstInt 2)) = Some 2
   \<and> exec_insts (\<lambda>r. 1) [(3, Shl (Reg 0) (ConstInt 1)), (4, Add (Reg 3) (Reg 0))] 4 = 3"
  by (simp add: substituteInstruction_def mul_example_def CreateShl_def CreateAdd_def
      CreateInst_def Insert_def update_insts_def replaceAllUsesWith_def eraseFromParent_def
      subst_block_def subst_inst_def eval_binop_def)

subsection \<open>String encryption\<close>




subsection \<open>Eligibility and configuration\<close>

text \<open>
  C8.  \<open>shouldObfuscateFunction\<close> returns false exactly for a function that is a
  declaration, is an intrinsic, or carries the attribute \<open>NoInline\<close> or \<open>AlwaysInline\<close>;
  for every other function it returns true.
\<close>

theorem shouldObfuscateFunction_false_iff:
  "(shouldObfuscateFunction F = False) =
     (isDeclaration F \<or> isIntrinsic F \<or> hasFnAttribute F NoInline
        \<or> hasFnAttribute F AlwaysInline)"
  by (simp add: shouldObfuscateFunction_def)

theorem shouldObfuscateFunction_false_iff_witness:
  "shouldObfuscateFunction add_example = True
   \<and> shouldObfuscateFunction (add_example\<lparr>blocks := []\<rparr>) = False
   \<and> shouldObfuscateFunction (add_example\<lparr>fname := ''llvm.memcpy''\<rparr>) = False
   \<and> shouldObfuscateFunction (add_example\<lparr>attrs := [NoInline]\<rparr>) = False
   \<and> shouldObfuscateFunction (add_example\<lparr>attrs := [OtherAttribute ''nounwind'', AlwaysInline]\<rparr>) = False
   \<and> shouldObfuscateFunction (add_example\<lparr>attrs := [OtherAttribute ''nounwind'']\<rparr>) = True"
  using shouldObfuscateFunction_false_iff [of add_example]
    shouldObfuscateFunction_false_iff [of "add_example\<lparr>blocks := []\<rparr>"]
    shouldObfuscateFunction_false_iff [of "add_example\<lparr>fname := ''llvm.memcpy''\<rparr>"]
    shouldObfuscateFunction_false_iff [of "add_example\<lparr>attrs := [NoInline]\<rparr>"]
    shouldObfuscateFunction_false_iff
      [of "add_example\<lparr>attrs := [OtherAttribute ''nounwind'', AlwaysInline]\<rparr>"]
    shouldObfuscateFunction_false_iff [of "add_example\<lparr>attrs := [OtherAttribute ''nounwind'']\<rparr>"]
  by (simp add: isDeclaration_def isIntrinsic_def hasFnAttribute_def add_example_def)

text \<open>
  C10.  For every configuration and every pass name, \<open>isPassEnabled\<close> returns true
  exactly when the key formed by the pass name and \<open>.enabled\<close> is present with the
  value \<open>true\<close>; a missing key and every other value, \<open>True\<close> and \<open>1\<close> among them, give
  false, and with the empty configuration every pass is disabled.
\<close>

theorem isPassEnabled_iff:
  "isPassEnabled config passName = (config (passName @ ''.enabled'') = Some ''true'')
   \<and> (config (passName @ ''.enabled'') = None \<longrightarrow> isPassEnabled config passName = False)
   \<and> (config (passName @ ''.enabled'') = Some ''True'' \<longrightarrow> isPassEnabled config passName = False)
   \<and> (config (passName @ ''.enabled'') = Some ''1'' \<longrightarrow> isPassEnabled config passName = False)
   \<and> isPassEnabled Map.empty passName = False"
  by (simp add: isPassEnabled_def getValue_def split: option.splits)

theorem isPassEnabled_iff_witness:
  "isPassEnabled [''flattening.enabled'' \<mapsto> ''true''] ''flattening'' = True
   \<and> isPassEnabled [''flattening.enabled'' \<mapsto> ''True''] ''flattening'' = False
   \<and> isPassEnabled [''flattening.enabled'' \<mapsto> ''1''] ''flattening'' = False
   \<and> isPassEnabled [''flattening.enabled'' \<mapsto> ''true''] ''bogus-control-flow'' = False
   \<and> isPassEnabled (setValue Map.empty ''flattening.enabled'' ''true'') ''flattening'' = True
   \<and> isPassEnabled Map.empty ''flattening'' = False"
  using isPassEnabled_iff [of "[''flattening.enabled'' \<mapsto> ''true'']" "''flattening''"]
    isPassEnabled_iff [of "[''flattening.enabled'' \<mapsto> ''True'']" "''flattening''"]
    isPassEnabled_iff [of "[''flattening.enabled'' \<mapsto> ''1'']" "''flattening''"]
    isPassEnabled_iff [of "[''flattening.enabled'' \<mapsto> ''true'']" "''bogus-control-flow''"]
    isPassEnabled_iff [of "setValue Map.empty ''flattening.enabled'' ''true''" "''flattening''"]
    isPassEnabled_iff [of Map.empty "''flattening''"]
  by (simp add: setValue_def)

end
